theory Spec2Isabelle
  imports Complex_Main
begin

section \<open>Python exceptions as values\<close>

text \<open>
  Every exception of the modelled Python code is a value of this type; the string is
  the exception's first argument (its message).  \<open>StopIteration\<close> carries none.
\<close>

datatype error =
    NameError string
  | KeyError string
  | TypeError string
  | ValueError string
  | StopIteration

section \<open>The class registry of \<open>DBObjectMeta\<close> (rewrite/dbConnection.py)\<close>

text \<open>
  A class statement whose metaclass is \<open>DBObjectMeta\<close>: the class name and the
  attributes the metaclass reads.  An object id is a Python value, a string or \<open>None\<close>.
  \<open>dct_objid\<close> is the \<open>objid\<close> entry of the class body (\<open>None\<close> when the body binds
  none, \<open>Some None\<close> when it binds Python's \<open>None\<close>); \<open>columns\<close> and \<open>column_map\<close> are
  the values that the attribute lookups \<open>cls.columns\<close> and \<open>cls.column_map\<close> yield,
  \<open>columns\<close> being \<open>None\<close> where the attribute is Python's \<open>None\<close> (the default of
  \<open>DBObject\<close>).  Class bodies that bind \<open>registry\<close> themselves are not modelled.
\<close>

record class_body =
  cname :: string
  dct_objid :: "string option option"
  columns :: "(string \<times> string) list option"
  column_map :: "string \<rightharpoonup> string"

text \<open>
  The state that class creation reads and writes: the \<open>registry\<close> class attribute
  (\<open>None\<close> before the base class has been created: \<open>hasattr(cls, 'registry')\<close> is
  false) and the warnings issued so far through \<open>warnings.warn\<close>, which reports and
  returns.
\<close>

record meta_state =
  registry :: "(string option \<rightharpoonup> class_body) option"
  warnings :: "string list"

text \<open>\<open>DBObjectMeta.__new__\<close>: a class body without \<open>objid\<close> gets the class name.\<close>

definition DBObjectMeta_new :: "class_body \<Rightarrow> class_body" where
  "DBObjectMeta_new dct =
     (case dct_objid dct of
        None \<Rightarrow> dct\<lparr>dct_objid := Some (Some (cname dct))\<rparr>
      | Some _ \<Rightarrow> dct)"

text \<open>
  The value of \<open>cls.objid\<close>: the entry of the class body, which \<open>__new__\<close> always
  leaves there (without one, the lookup would find \<open>None\<close> in \<open>DBObject\<close>).
\<close>

definition cls_objid :: "class_body \<Rightarrow> string option" where
  "cls_objid cls = (case dct_objid cls of None \<Rightarrow> None | Some v \<Rightarrow> v)"

text \<open>\<open>'%s' % v\<close> for an object id.\<close>

definition py_str :: "string option \<Rightarrow> string" where
  "py_str v = (case v of None \<Rightarrow> ''None'' | Some s \<Rightarrow> s)"

text \<open>\<open>'duplicate object id %s specified' % cls.objid\<close>\<close>

definition duplicate_warning :: "string option \<Rightarrow> string" where
  "duplicate_warning oid = ''duplicate object id '' @ py_str oid @ '' specified''"

text \<open>
  \<open>dict([(el[0], cls.column_map.get(el[0], el[0])) for el in cls.columns])\<close>: of two
  pairs with one key, \<open>dict\<close> keeps the later.
\<close>

definition build_requirements ::
  "(string \<times> string) list \<Rightarrow> (string \<rightharpoonup> string) \<Rightarrow> (string \<rightharpoonup> string)" where
  "build_requirements cols cmap =
     map_of (rev (map (\<lambda>el. (fst el, case cmap (fst el) of None \<Rightarrow> fst el | Some v \<Rightarrow> v)) cols))"

text \<open>
  \<open>DBObjectMeta.__init__\<close>.  The first class (the base class) creates the registry and
  is not entered in it.  Every later class warns when its \<open>objid\<close> is already a key,
  then stores itself under that key in either case, then builds \<open>requirements\<close>;
  iterating over \<open>cls.columns\<close> raises \<open>TypeError\<close> when that is \<open>None\<close>, after the
  registry has been written.  The result is the new state and the exception, if any.
  \<open>numpy.dtype(cls.columns)\<close> is taken to accept the column list; the attributes
  \<open>requirements\<close> and \<open>dtype\<close> that are set on the class are no part of the state.
\<close>

definition DBObjectMeta_init :: "meta_state \<Rightarrow> class_body \<Rightarrow> meta_state \<times> error option" where
  "DBObjectMeta_init st cls =
     (case registry st of
        None \<Rightarrow> (st\<lparr>registry := Some Map.empty\<rparr>, None)
      | Some reg \<Rightarrow>
          (let st' = st\<lparr>registry := Some (reg(cls_objid cls \<mapsto> cls)),
                         warnings := warnings st @
                           (if cls_objid cls \<in> dom reg
                            then [duplicate_warning (cls_objid cls)] else [])\<rparr>
           in case columns cls of
                None \<Rightarrow> (st', Some (TypeError ''NoneType object is not iterable''))
              | Some cols \<Rightarrow> (st', None)))"

text \<open>Executing a class statement: \<open>__new__\<close>, then \<open>__init__\<close>.\<close>

definition create_class :: "meta_state \<Rightarrow> class_body \<Rightarrow> meta_state \<times> error option" where
  "create_class st dct = DBObjectMeta_init st (DBObjectMeta_new dct)"

text \<open>
  The classes of the module: \<open>DBObject\<close> and \<open>StarObj\<close>.  A column is a name and a
  type; the length of the \<open>unicode\<close> column is left out.
\<close>

definition DBObject_body :: class_body where
  "DBObject_body =
     \<lparr>cname = ''DBObject'', dct_objid = Some None, columns = None, column_map = Map.empty\<rparr>"

definition StarObj_body :: class_body where
  "StarObj_body =
     \<lparr>cname = ''StarObj'', dct_objid = Some (Some ''msstars''),
      columns = Some [(''id'', ''int''), (''umag'', ''float''), (''gmag'', ''float''),
                      (''rmag'', ''float''), (''imag'', ''float''), (''zmag'', ''float''),
                      (''raJ2000'', ''float''), (''decJ2000'', ''float''),
                      (''sedFilename'', ''unicode'')],
      column_map = [''id'' \<mapsto> ''simobjid'', ''raJ2000'' \<mapsto> ''ra*PI()/180.'',
                    ''decJ2000'' \<mapsto> ''decl*PI()/180.'', ''sedFilename'' \<mapsto> ''sedfilename'']\<rparr>"

text \<open>The state before any class statement has run.\<close>

definition no_classes :: meta_state where
  "no_classes = \<lparr>registry = None, warnings = []\<rparr>"

text \<open>The state once the module has been imported.\<close>

definition module_loaded :: meta_state where
  "module_loaded = fst (create_class (fst (create_class no_classes DBObject_body)) StarObj_body)"

text \<open>Example data: another class that claims the object id of \<open>StarObj\<close>.\<close>

definition BrightStars_body :: class_body where
  "BrightStars_body =
     \<lparr>cname = ''BrightStars'', dct_objid = Some (Some ''msstars''),
      columns = Some [(''id'', ''int''), (''umag'', ''float'')],
      column_map = [''id'' \<mapsto> ''simobjid'']\<rparr>"

section \<open>Queries and chunked iteration (rewrite/dbConnection.py)\<close>

text \<open>
  A query as \<open>_get_column_query\<close> and \<open>filter\<close> build it: the selected expressions
  with their labels, and the filter clauses.
\<close>

record query =
  q_columns :: "(string \<times> string) list"
  q_filters :: "string list"

text \<open>
  An instance of a \<open>DBObject\<close> subclass, as far as \<open>query_columns\<close> reads it.
  \<open>__init__\<close> refuses \<open>columns = None\<close>, so an instance has a column list.  A result row
  maps labels to values; \<open>db_execute\<close> stands for the database: the rows that
  \<open>session.execute(query)\<close> holds.
\<close>

record 'v dbobject =
  db_columns :: "(string \<times> string) list"
  db_column_map :: "string \<rightharpoonup> string"
  idColName :: string
  db_execute :: "query \<Rightarrow> (string \<rightharpoonup> 'v) list"

text \<open>\<open>self.requirements\<close>, set by the metaclass.\<close>

definition requirements :: "'v dbobject \<Rightarrow> (string \<rightharpoonup> string)" where
  "requirements self = build_requirements (db_columns self) (db_column_map self)"

text \<open>
  \<open>_get_column_query\<close>.  A name that is no key of \<open>requirements\<close> raises \<open>ValueError\<close>.
  The first selected column is the id column, labelled with the column name that maps
  to it (\<open>colnames[vals.index(self.idColName)]\<close>) or \<open>'id'\<close>; of the others, taken
  from the second on, those that map to the id column are skipped (the source compares
  with \<open>is\<close>, which is taken as equality of the strings).
\<close>

definition get_column_query :: "'v dbobject \<Rightarrow> string list option \<Rightarrow> error + query" where
  "get_column_query self colnames_arg =
     (let colnames = (case colnames_arg of
                        None \<Rightarrow> map fst (db_columns self)
                      | Some cs \<Rightarrow> cs)
      in case those (map (requirements self) colnames) of
           None \<Rightarrow> Inl (ValueError ''entries in colnames must be in self.columns'')
         | Some vals \<Rightarrow>
             (let idLabel = (case find (\<lambda>cv. snd cv = idColName self) (zip colnames vals) of
                               Some cv \<Rightarrow> fst cv
                             | None \<Rightarrow> ''id'');
                  others = filter (\<lambda>cv. snd cv \<noteq> idColName self) (zip (tl colnames) (tl vals))
              in Inr \<lparr>q_columns = (idColName self, idLabel) # map (\<lambda>cv. (snd cv, fst cv)) others,
                      q_filters = []\<rparr>))"

text \<open>
  \<open>_postprocess_results\<close>: every result row is copied key by key, for the keys of
  \<open>requirements\<close>; a row without one of them raises (\<open>result[k]\<close>).
\<close>

definition postprocess_row :: "'v dbobject \<Rightarrow> (string \<rightharpoonup> 'v) \<Rightarrow> error + (string \<rightharpoonup> 'v)" where
  "postprocess_row self result =
     (case find (\<lambda>k. result k = None) (map fst (db_columns self)) of
        Some k \<Rightarrow> Inl (KeyError k)
      | None \<Rightarrow> Inr (result |` set (map fst (db_columns self))))"

fun postprocess_results ::
  "'v dbobject \<Rightarrow> (string \<rightharpoonup> 'v) list \<Rightarrow> error + (string \<rightharpoonup> 'v) list" where
  "postprocess_results self [] = Inr []"
| "postprocess_results self (r # rs) =
     (case postprocess_row self r of
        Inl e \<Rightarrow> Inl e
      | Inr r' \<Rightarrow>
          (case postprocess_results self rs of
             Inl e \<Rightarrow> Inl e
           | Inr rs' \<Rightarrow> Inr (r' # rs')))"

text \<open>
  A \<open>ChunkIterator\<close>: the database object, the rows of the executed query that have
  not been fetched yet, and the chunk size.
\<close>

record 'v ChunkIterator =
  it_dbobj :: "'v dbobject"
  it_exec_query :: "(string \<rightharpoonup> 'v) list"
  it_chunksize :: nat

text \<open>
  The names bound at module level in dbConnection.py: the imports, the constant, the
  classes, and the two names bound when the file runs as a script.
\<close>

definition module_names :: "string list" where
  "module_names =
     [''warnings'', ''math'', ''numpy'', ''scoped_session'', ''sessionmaker'', ''mapper'',
      ''expression'', ''create_engine'', ''ThreadLocalMetaData'', ''MetaData'', ''Table'',
      ''Column'', ''BigInteger'', ''DEFAULT_ADDRESS'', ''ObservationMetaData'',
      ''ChunkIterator'', ''DBObjectMeta'', ''DBObject'', ''StarObj'', ''star'',
      ''obs_metadata'']"

text \<open>
  \<open>ChunkIterator.__init__(self, exec_query, chunksize)\<close> reads two names that are not
  among its parameters, \<open>dbobj\<close> and \<open>query\<close>; Python looks them up in the module.
  \<open>module_env\<close> is what the module binds them to, if anything.
\<close>

record 'v module_env =
  g_dbobj :: "'v dbobject option"
  g_query :: "query option"

text \<open>The module binds neither (see \<open>module_names\<close>).\<close>

definition dbConnection_env :: "'v module_env" where
  "dbConnection_env = \<lparr>g_dbobj = None, g_query = None\<rparr>"

text \<open>
  \<open>ChunkIterator.__init__\<close>: \<open>self.dbobj = dbobj\<close>,
  \<open>self.exec_query = dbobj.session.execute(query)\<close>, \<open>self.chunksize = chunksize\<close>.
  A name the module does not bind raises \<open>NameError\<close>, whose argument here is the name.
  The parameter \<open>exec_query\<close> is never read.
\<close>

definition ChunkIterator_init ::
  "'v module_env \<Rightarrow> 'v dbobject \<Rightarrow> nat \<Rightarrow> error + 'v ChunkIterator" where
  "ChunkIterator_init env exec_query chunksize =
     (case g_dbobj env of
        None \<Rightarrow> Inl (NameError ''dbobj'')
      | Some dbobj \<Rightarrow>
          (case g_query env of
             None \<Rightarrow> Inl (NameError ''query'')
           | Some query \<Rightarrow>
               Inr \<lparr>it_dbobj = dbobj, it_exec_query = db_execute dbobj query,
                    it_chunksize = chunksize\<rparr>))"

text \<open>
  \<open>ChunkIterator.next\<close>: \<open>fetchmany(chunksize)\<close> takes the next rows off the cursor; no
  row raises \<open>StopIteration\<close>, otherwise the chunk is post-processed.
\<close>

definition ChunkIterator_next ::
  "'v ChunkIterator \<Rightarrow> 'v ChunkIterator \<times> (error + (string \<rightharpoonup> 'v) list)" where
  "ChunkIterator_next it =
     (let chunk = take (it_chunksize it) (it_exec_query it);
          it' = it\<lparr>it_exec_query := drop (it_chunksize it) (it_exec_query it)\<rparr>
      in if length chunk = 0 then (it', Inl StopIteration)
         else (it', postprocess_results (it_dbobj it) chunk))"

text \<open>What \<open>query_columns\<close> returns: the list of rows, or an iterator.\<close>

datatype 'v query_result = Rows "(string \<rightharpoonup> 'v) list" | Chunks "'v ChunkIterator"

text \<open>
  \<open>query_columns\<close>.  \<open>filter_md\<close> stands for \<open>self.filter\<close> applied to the bounds and the
  date of an observation (it formats floating-point bounds into SQL text, which is
  not modelled); \<open>constraint\<close> is added as a filter clause.
\<close>

definition query_columns ::
  "'v module_env \<Rightarrow> (query \<Rightarrow> 'md \<Rightarrow> error + query) \<Rightarrow> 'v dbobject \<Rightarrow>
   string list option \<Rightarrow> nat option \<Rightarrow> 'md option \<Rightarrow> string option \<Rightarrow> error + 'v query_result" where
  "query_columns env filter_md self colnames chunksize obs_metadata constraint =
     (case get_column_query self colnames of
        Inl e \<Rightarrow> Inl e
      | Inr query0 \<Rightarrow>
          (case (case obs_metadata of None \<Rightarrow> Inr query0 | Some md \<Rightarrow> filter_md query0 md) of
             Inl e \<Rightarrow> Inl e
           | Inr query1 \<Rightarrow>
               (let query2 = (case constraint of
                                None \<Rightarrow> query1
                              | Some c \<Rightarrow> query1\<lparr>q_filters := q_filters query1 @ [c]\<rparr>)
                in case chunksize of
                     None \<Rightarrow>
                       (case postprocess_results self (db_execute self query2) of
                          Inl e \<Rightarrow> Inl e
                        | Inr rows \<Rightarrow> Inr (Rows rows))
                   | Some n \<Rightarrow>
                       (case ChunkIterator_init env self n of
                          Inl e \<Rightarrow> Inl e
                        | Inr it \<Rightarrow> Inr (Chunks it)))))"

text \<open>An instance of \<open>StarObj\<close> over some database.\<close>

definition StarObj :: "(query \<Rightarrow> (string \<rightharpoonup> 'v) list) \<Rightarrow> 'v dbobject" where
  "StarObj db =
     \<lparr>db_columns = [(''id'', ''int''), (''umag'', ''float''), (''gmag'', ''float''),
                    (''rmag'', ''float''), (''imag'', ''float''), (''zmag'', ''float''),
                    (''raJ2000'', ''float''), (''decJ2000'', ''float''),
                    (''sedFilename'', ''unicode'')],
      db_column_map = [''id'' \<mapsto> ''simobjid'', ''raJ2000'' \<mapsto> ''ra*PI()/180.'',
                       ''decJ2000'' \<mapsto> ''decl*PI()/180.'', ''sedFilename'' \<mapsto> ''sedfilename''],
      idColName = ''simobjid'',
      db_execute = db\<rparr>"

section \<open>A bandpass table cached on the catalog instance (utils/CatalogTestUtils.py)\<close>

text \<open>
  What \<open>cartoonPhotometryStars.get_magnitudes\<close> reads and writes on the catalog
  instance.  \<open>cartoonBandpassDict\<close> is the instance attribute of that name, \<open>None\<close> while
  \<open>hasattr(self, 'cartoonBandpassDict')\<close> is false; the two master lists are the lists
  the unit tests inspect.  \<open>bandpass_loads\<close> is not in the source: it counts the calls of
  \<open>BandpassDict.loadTotalBandpassesFromFiles\<close>, so that theorems can speak of them.
\<close>

record ('bp, 'sed, 'v) cartoon_catalog =
  cartoonBandpassDict :: "'bp option"
  sedMasterList :: "'sed list"
  magnitudeMasterList :: "'v list list"
  bandpass_loads :: nat

text \<open>
  The functions of other packages that the getter calls, on a chunk of type \<open>'c\<close> (the
  rows that \<open>column_by_name\<close> reads from): the bandpass table that loading the files
  \<open>test_bandpass_u\<close>, ..., \<open>test_bandpass_z\<close> yields, \<open>PhotometryStars._magnitudeGetter\<close>
  (one array per column name) and \<open>SedList\<close> over the chunk's columns \<open>sedFilename\<close>,
  \<open>magNorm\<close> and \<open>galacticAv\<close>.
\<close>

record ('bp, 'sed, 'v, 'c) photometry_env =
  loadTotalBandpassesFromFiles :: "'bp"
  magnitudeGetter :: "'bp \<Rightarrow> string list \<Rightarrow> 'c \<Rightarrow> 'v list list"
  SedList :: "'c \<Rightarrow> 'sed list"

text \<open>The column names of the compound getter (\<open>get_magnitudes._colnames\<close>).\<close>

definition cartoon_colnames :: "string list" where
  "cartoon_colnames = [''cartoon_u'', ''cartoon_g'', ''cartoon_r'', ''cartoon_i'', ''cartoon_z'']"

text \<open>
  The getter from the call of \<open>_magnitudeGetter\<close> on, with the bandpass table in hand:
  the SEDs of the chunk are appended to \<open>sedMasterList\<close>, and the magnitudes of every
  object (\<open>output[j][i]\<close> over the columns \<open>j\<close>) to \<open>magnitudeMasterList\<close>.  \<open>output\<close> is a
  rectangular array.
\<close>

definition magnitudes_with ::
  "('bp, 'sed, 'v, 'c) photometry_env \<Rightarrow> ('bp, 'sed, 'v) cartoon_catalog \<Rightarrow> 'bp \<Rightarrow> 'c \<Rightarrow>
   ('bp, 'sed, 'v) cartoon_catalog \<times> 'v list list" where
  "magnitudes_with env self bp chunk =
     (let output = magnitudeGetter env bp cartoon_colnames chunk;
          self1 = self\<lparr>sedMasterList := sedMasterList self @ SedList env chunk\<rparr>;
          self2 = (if length output > 0
                   then self1\<lparr>magnitudeMasterList := magnitudeMasterList self1 @
                          map (\<lambda>i. map (\<lambda>j. output ! j ! i) [0..<length output])
                              [0..<length (output ! 0)]\<rparr>
                   else self1)
      in (self2, output))"

text \<open>
  \<open>cartoonPhotometryStars.get_magnitudes\<close>: the bandpass files are loaded only if the
  instance has no \<open>cartoonBandpassDict\<close> yet, and the result is kept on the instance.
\<close>

definition get_magnitudes ::
  "('bp, 'sed, 'v, 'c) photometry_env \<Rightarrow> ('bp, 'sed, 'v) cartoon_catalog \<Rightarrow> 'c \<Rightarrow>
   ('bp, 'sed, 'v) cartoon_catalog \<times> 'v list list" where
  "get_magnitudes env self chunk =
     (case cartoonBandpassDict self of
        None \<Rightarrow>
          magnitudes_with env
            (self\<lparr>cartoonBandpassDict := Some (loadTotalBandpassesFromFiles env),
                   bandpass_loads := Suc (bandpass_loads self)\<rparr>)
            (loadTotalBandpassesFromFiles env) chunk
      | Some bp \<Rightarrow> magnitudes_with env self bp chunk)"

text \<open>
  A run of the catalog over its chunks, as far as this getter is concerned: the getter
  is called for one chunk after the other on the same instance.
\<close>

fun get_magnitudes_of_chunks ::
  "('bp, 'sed, 'v, 'c) photometry_env \<Rightarrow> ('bp, 'sed, 'v) cartoon_catalog \<Rightarrow> 'c list \<Rightarrow>
   ('bp, 'sed, 'v) cartoon_catalog \<times> 'v list list list" where
  "get_magnitudes_of_chunks env self [] = (self, [])"
| "get_magnitudes_of_chunks env self (c # cs) =
     (let r1 = get_magnitudes env self c;
          r2 = get_magnitudes_of_chunks env (fst r1) cs
      in (fst r2, snd r1 # snd r2))"

text \<open>A catalog instance on which no getter has run.\<close>

definition new_cartoon_catalog :: "('bp, 'sed, 'v) cartoon_catalog" where
  "new_cartoon_catalog =
     \<lparr>cartoonBandpassDict = None, sedMasterList = [], magnitudeMasterList = [],
      bandpass_loads = 0\<rparr>"

text \<open>
  Example data: chunks are lists of numbers, the table is a string, and the magnitude
  of an object in every column is its number plus the length of the table.
\<close>

definition cartoon_example :: "(string, nat, nat, nat list) photometry_env" where
  "cartoon_example =
     \<lparr>loadTotalBandpassesFromFiles = ''ugriz'',
      magnitudeGetter = (\<lambda>bp names chunk. map (\<lambda>n. map (\<lambda>x. x + length bp) chunk) names),
      SedList = (\<lambda>chunk. chunk)\<rparr>"

section \<open>Floating-point cells\<close>

text \<open>
  A cell of a numeric column: a number or numpy's \<open>NaN\<close>.  Numbers are reals: rounding
  and the infinities are not modelled.  The operations are numpy's, as far as the
  getters below use them: arithmetic on \<open>NaN\<close> gives \<open>NaN\<close>, a comparison with \<open>NaN\<close> is
  false.
\<close>

datatype npfloat = NaN | Fl real

fun np_add :: "npfloat \<Rightarrow> npfloat \<Rightarrow> npfloat" where
  "np_add (Fl a) (Fl b) = Fl (a + b)"
| "np_add _ _ = NaN"

fun np_sub :: "npfloat \<Rightarrow> npfloat \<Rightarrow> npfloat" where
  "np_sub (Fl a) (Fl b) = Fl (a - b)"
| "np_sub _ _ = NaN"

fun np_abs :: "npfloat \<Rightarrow> npfloat" where
  "np_abs (Fl a) = Fl \<bar>a\<bar>"
| "np_abs NaN = NaN"

fun np_gt :: "npfloat \<Rightarrow> npfloat \<Rightarrow> bool" where
  "np_gt (Fl a) (Fl b) = (a > b)"
| "np_gt _ _ = False"

fun np_isnan :: "npfloat \<Rightarrow> bool" where
  "np_isnan NaN = True"
| "np_isnan (Fl _) = False"

text \<open>\<open>numpy.where(cond, x, ys)\<close> for a scalar \<open>x\<close>.\<close>

definition np_where :: "bool list \<Rightarrow> 'a \<Rightarrow> 'a list \<Rightarrow> 'a list" where
  "np_where cond x ys = map (\<lambda>by. if fst by then x else snd by) (zip cond ys)"

section \<open>Supernova catalogs (mixins/sncat.py)\<close>

text \<open>
  The observation metadata, as far as the supernova getters read it: the bandpass (a
  name, or a list of names), the 5-sigma depths \<open>m5\<close> (a dictionary from bandpass names
  to depths, or Python's \<open>None\<close> where none were given) and the date \<open>mjd.TAI\<close>.
\<close>

datatype bandspec = Band string | BandList "string list"

record obs_metadata =
  bandpass :: bandspec
  m5 :: "(string \<rightharpoonup> real) option"
  mjd_TAI :: real

text \<open>
  The catalog instance.  \<open>dict_lsstBandpassDict\<close> is the entry that the
  \<open>lazyproperty\<close> \<open>lsstBandpassDict\<close> leaves in the instance dictionary once it has been
  read; \<open>lsst_loads\<close> is not in the source and counts the calls of
  \<open>BandpassDict.loadTotalBandpassesFromFiles\<close>.  \<open>attr_suppressDimSN\<close> is the attribute
  \<open>_suppressDimSN\<close>, \<open>None\<close> while it is not set.
\<close>

record 'bp sn_catalog =
  dict_lsstBandpassDict :: "(string \<rightharpoonup> 'bp) option"
  lsst_loads :: nat
  attr_suppressDimSN :: "bool option"

text \<open>
  One object of a chunk, as \<open>get_snbrightness\<close> reads it through \<open>column_by_name\<close>: the
  columns \<open>c\<close>, \<open>x1\<close>, \<open>x0\<close>, \<open>t0\<close>, \<open>redshift\<close>, \<open>raJ2000\<close> and \<open>decJ2000\<close>.  All columns
  of a chunk have the length of the chunk, so the chunk is the list of its objects,
  and \<open>numobjs\<close> is its length.
\<close>

record sn_row =
  sn_c :: npfloat
  sn_x1 :: npfloat
  sn_x0 :: npfloat
  sn_t0 :: npfloat
  sn_redshift :: npfloat
  sn_raJ2000 :: npfloat
  sn_decJ2000 :: npfloat

text \<open>
  The functions of other packages that \<open>get_snbrightness\<close> calls: loading the LSST
  bandpasses, and the methods of \<open>SNObject\<close> and \<open>Sed\<close>, each for an object set up from a
  row (\<open>set\<close>, \<open>setCoords\<close>, \<open>mwEBVfromMaps\<close>) at the time of the observation.  They are
  taken to return.
\<close>

record 'bp sn_model =
  loadLsstBandpasses :: "string \<rightharpoonup> 'bp"
  catsimBandFlux :: "sn_row \<Rightarrow> real \<Rightarrow> 'bp \<Rightarrow> npfloat"
  catsimBandMag :: "sn_row \<Rightarrow> real \<Rightarrow> npfloat \<Rightarrow> 'bp \<Rightarrow> npfloat"
  catsimBandFluxError :: "sn_row \<Rightarrow> real \<Rightarrow> 'bp \<Rightarrow> real \<Rightarrow> npfloat \<Rightarrow> npfloat \<Rightarrow> npfloat"
  calcADU :: "sn_row \<Rightarrow> real \<Rightarrow> (string \<rightharpoonup> 'bp) \<Rightarrow> 'bp \<Rightarrow> npfloat"
  catsimBandMagError :: "sn_row \<Rightarrow> real \<Rightarrow> 'bp \<Rightarrow> real \<Rightarrow> npfloat \<Rightarrow> npfloat"

text \<open>
  Reading the \<open>lazyproperty\<close> \<open>lsstBandpassDict\<close>: the first read calls the function and
  stores its value in the instance dictionary, every later read returns the stored
  value.
\<close>

definition lsstBandpassDict ::
  "'bp sn_model \<Rightarrow> 'bp sn_catalog \<Rightarrow> 'bp sn_catalog \<times> (string \<rightharpoonup> 'bp)" where
  "lsstBandpassDict model self =
     (case dict_lsstBandpassDict self of
        Some d \<Rightarrow> (self, d)
      | None \<Rightarrow>
          (self\<lparr>dict_lsstBandpassDict := Some (loadLsstBandpasses model),
                 lsst_loads := Suc (lsst_loads self)\<rparr>,
           loadLsstBandpasses model))"

text \<open>
  \<open>self.obs_metadata.m5[bandname]\<close>: subscripting \<open>None\<close> raises \<open>TypeError\<close>, a
  dictionary without the key raises \<open>KeyError\<close>, whose argument is the key.
\<close>

definition m5_of :: "obs_metadata \<Rightarrow> string \<Rightarrow> error + real" where
  "m5_of obs bandname =
     (case m5 obs of
        None \<Rightarrow> Inl (TypeError ''NoneType object has no attribute __getitem__'')
      | Some d \<Rightarrow>
          (case d bandname of
             None \<Rightarrow> Inl (KeyError bandname)
           | Some v \<Rightarrow> Inr v))"

text \<open>
  One turn of the loop of \<open>get_snbrightness\<close>: the flux and the magnitude, then the
  flux error, whose argument \<open>m5\<close> is looked up first, then the counts, then the
  magnitude error, whose \<open>m5\<close> is looked up again.  The result is the row
  \<open>vals[i, 0:5]\<close>: flux, magnitude, flux error, magnitude error, counts.
\<close>

definition snbrightness_row ::
  "'bp sn_model \<Rightarrow> obs_metadata \<Rightarrow> (string \<rightharpoonup> 'bp) \<Rightarrow> string \<Rightarrow> 'bp \<Rightarrow> sn_row \<Rightarrow>
   error + npfloat list" where
  "snbrightness_row model obs bpdict bandname bp row =
     (let fluxinMaggies = catsimBandFlux model row (mjd_TAI obs) bp;
          mag = catsimBandMag model row (mjd_TAI obs) fluxinMaggies bp
      in case m5_of obs bandname of
           Inl e \<Rightarrow> Inl e
         | Inr m5_flux \<Rightarrow>
             (let flux_err = catsimBandFluxError model row (mjd_TAI obs) bp m5_flux fluxinMaggies mag;
                  adu = calcADU model row (mjd_TAI obs) bpdict bp
              in case m5_of obs bandname of
                   Inl e \<Rightarrow> Inl e
                 | Inr m5_mag \<Rightarrow>
                     Inr [fluxinMaggies, mag, flux_err,
                          catsimBandMagError model row (mjd_TAI obs) bp m5_mag mag, adu]))"

text \<open>The loop over the objects: the first exception ends it.\<close>

fun snbrightness_rows ::
  "'bp sn_model \<Rightarrow> obs_metadata \<Rightarrow> (string \<rightharpoonup> 'bp) \<Rightarrow> string \<Rightarrow> 'bp \<Rightarrow> sn_row list \<Rightarrow>
   error + npfloat list list" where
  "snbrightness_rows model obs bpdict bandname bp [] = Inr []"
| "snbrightness_rows model obs bpdict bandname bp (row # rows) =
     (case snbrightness_row model obs bpdict bandname bp row of
        Inl e \<Rightarrow> Inl e
      | Inr v \<Rightarrow>
          (case snbrightness_rows model obs bpdict bandname bp rows of
             Inl e \<Rightarrow> Inl e
           | Inr vs \<Rightarrow> Inr (v # vs)))"

text \<open>
  \<open>SNFunctionality.get_snbrightness\<close>, the compound getter of \<open>flux\<close>, \<open>mag\<close>,
  \<open>flux_err\<close>, \<open>mag_err\<close> and \<open>adu\<close>.  A list of bandpasses raises \<open>ValueError\<close>; the
  bandpass is looked up in the LSST bandpasses (read through the \<open>lazyproperty\<close>); the
  result is the five columns \<open>vals[:, 0]\<close>, ..., \<open>vals[:, 4]\<close>.
\<close>

definition get_snbrightness ::
  "'bp sn_model \<Rightarrow> 'bp sn_catalog \<Rightarrow> obs_metadata \<Rightarrow> sn_row list \<Rightarrow>
   'bp sn_catalog \<times> (error + npfloat list list)" where
  "get_snbrightness model self obs rows =
     (case bandpass obs of
        BandList bs \<Rightarrow>
          (self, Inl (ValueError (''bandname expected to be string, but is list'' @ [CHR 0x0A])))
      | Band bandname \<Rightarrow>
          (let r = lsstBandpassDict model self
           in case snd r bandname of
                None \<Rightarrow> (fst r, Inl (KeyError bandname))
              | Some bp \<Rightarrow>
                  (fst r,
                   case snbrightness_rows model obs (snd r) bandname bp rows of
                     Inl e \<Rightarrow> Inl e
                   | Inr vals \<Rightarrow> Inr (map (\<lambda>k. map (\<lambda>v. v ! k) vals) [0..<5]))))"

text \<open>
  A run of the catalog over its chunks, as far as this getter is concerned: the getter
  is called for one chunk after the other on the same instance, and the first
  exception ends the run.
\<close>

fun get_snbrightness_of_chunks ::
  "'bp sn_model \<Rightarrow> 'bp sn_catalog \<Rightarrow> obs_metadata \<Rightarrow> sn_row list list \<Rightarrow>
   'bp sn_catalog \<times> (error + npfloat list list list)" where
  "get_snbrightness_of_chunks model self obs [] = (self, Inr [])"
| "get_snbrightness_of_chunks model self obs (c # cs) =
     (let r1 = get_snbrightness model self obs c
      in case snd r1 of
           Inl e \<Rightarrow> (fst r1, Inl e)
         | Inr out \<Rightarrow>
             (let r2 = get_snbrightness_of_chunks model (fst r1) obs cs
              in (fst r2, case snd r2 of Inl e \<Rightarrow> Inl e | Inr outs \<Rightarrow> Inr (out # outs))))"

text \<open>An observation in the \<open>r\<close> band with its depth.\<close>

definition obs_r_band :: obs_metadata where
  "obs_r_band = \<lparr>bandpass = Band ''r'', m5 = Some [''r'' \<mapsto> 24], mjd_TAI = 59700\<rparr>"

text \<open>A catalog instance on which no property has been read.\<close>

definition new_sn_catalog :: "'bp sn_catalog" where
  "new_sn_catalog = \<lparr>dict_lsstBandpassDict = None, lsst_loads = 0, attr_suppressDimSN = None\<rparr>"

text \<open>
  Example data: six bandpasses, constant photometry, and one supernova.
\<close>

definition sn_example :: "nat sn_model" where
  "sn_example =
     \<lparr>loadLsstBandpasses = [''u'' \<mapsto> 0, ''g'' \<mapsto> 1, ''r'' \<mapsto> 2, ''i'' \<mapsto> 3,
                             ''z'' \<mapsto> 4, ''y'' \<mapsto> 5],
      catsimBandFlux = (\<lambda>row t bp. Fl 1),
      catsimBandMag = (\<lambda>row t flux bp. Fl 20),
      catsimBandFluxError = (\<lambda>row t bp m5 flux mag. Fl 1),
      calcADU = (\<lambda>row t bps bp. Fl 100),
      catsimBandMagError = (\<lambda>row t bp m5 mag. Fl 1)\<rparr>"

definition sn_example_row :: sn_row where
  "sn_example_row =
     \<lparr>sn_c = Fl 0, sn_x1 = Fl 0, sn_x0 = Fl 1, sn_t0 = Fl 57388, sn_redshift = Fl 1,
      sn_raJ2000 = Fl 0, sn_decJ2000 = Fl 0\<rparr>"

text \<open>
  One object of a chunk of \<open>FrozenSNCat\<close>: the columns of the data source that its
  getters read, \<open>snid\<close>, \<open>raJ2000\<close>, \<open>decJ2000\<close>, \<open>Tredshift\<close>, \<open>Tc\<close>, \<open>Tx1\<close>, \<open>Tx0\<close> and
  \<open>Tt0\<close>.  \<open>column_by_name\<close> of such a column is the list of its cells.
\<close>

record frozen_row =
  f_snid :: npfloat
  f_raJ2000 :: npfloat
  f_decJ2000 :: npfloat
  f_Tredshift :: npfloat
  f_Tc :: npfloat
  f_Tx1 :: npfloat
  f_Tx0 :: npfloat
  f_Tt0 :: npfloat

text \<open>The class attributes of \<open>SNFunctionality\<close> and \<open>FrozenSNCat\<close>.\<close>

definition SN_column_outputs :: "string list" where
  "SN_column_outputs = [''snid'', ''snra'', ''sndec'', ''z'', ''t0'', ''c'', ''x1'', ''x0'']"

definition SN_cannot_be_null :: "string list" where
  "SN_cannot_be_null = [''x0'', ''z'', ''t0'']"

definition maxTimeSNVisible :: real where
  "maxTimeSNVisible = 100"

definition surveyStartDate :: real where
  "surveyStartDate = 59580"

definition badvalues :: npfloat where
  "badvalues = NaN"

text \<open>
  The property \<open>suppressDimSN\<close>: true unless the attribute has been set otherwise.
  (Reading it sets the attribute to that default, which changes no later read.)
\<close>

definition suppressDimSN :: "'bp sn_catalog \<Rightarrow> bool" where
  "suppressDimSN self = (case attr_suppressDimSN self of None \<Rightarrow> True | Some b \<Rightarrow> b)"

text \<open>
  \<open>FrozenSNCat.get_snparams\<close>, the compound getter of \<open>c\<close>, \<open>x1\<close>, \<open>x0\<close> and \<open>t0\<close>: the
  peak date is \<open>Tt0\<close> plus the start of the survey, and with \<open>suppressDimSN\<close> it is
  replaced by \<open>badvalues\<close> where it lies more than \<open>maxTimeSNVisible\<close> days from the
  observation.
\<close>

definition get_snparams ::
  "'bp sn_catalog \<Rightarrow> obs_metadata \<Rightarrow> frozen_row list \<Rightarrow> npfloat list list" where
  "get_snparams self obs chunk =
     (let c = map f_Tc chunk;
          x1 = map f_Tx1 chunk;
          x0 = map f_Tx0 chunk;
          t0 = map (\<lambda>v. np_add v (Fl surveyStartDate)) (map f_Tt0 chunk);
          t0' = (if suppressDimSN self
                 then np_where
                        (map (\<lambda>v. np_gt (np_abs (np_sub v (Fl (mjd_TAI obs)))) (Fl maxTimeSNVisible)) t0)
                        badvalues t0
                 else t0)
      in [c, x1, x0, t0'])"

text \<open>
  \<open>FrozenSNCat.get_angularCoordinates\<close>, the compound getter of \<open>snra\<close>, \<open>sndec\<close>, \<open>z\<close>,
  \<open>vra\<close>, \<open>vdec\<close> and \<open>vr\<close>.
\<close>

definition get_angularCoordinates :: "frozen_row list \<Rightarrow> npfloat list list" where
  "get_angularCoordinates chunk =
     [map f_raJ2000 chunk, map f_decJ2000 chunk, map f_Tredshift chunk,
      replicate (length chunk) (Fl 0), replicate (length chunk) (Fl 0),
      replicate (length chunk) (Fl 0)]"

text \<open>
  The columns of a chunk by name, for the names that \<open>FrozenSNCat\<close> outputs or must not
  be null: \<open>snid\<close> comes from the data source, each other column is the output of its
  compound getter at the position the \<open>compound\<close> decorator names it.
\<close>

definition FrozenSNCat_column ::
  "'bp sn_catalog \<Rightarrow> obs_metadata \<Rightarrow> frozen_row list \<Rightarrow> string \<Rightarrow> npfloat list" where
  "FrozenSNCat_column self obs chunk name =
     (if name = ''snid'' then map f_snid chunk
      else if name = ''snra'' then get_angularCoordinates chunk ! 0
      else if name = ''sndec'' then get_angularCoordinates chunk ! 1
      else if name = ''z'' then get_angularCoordinates chunk ! 2
      else if name = ''c'' then get_snparams self obs chunk ! 0
      else if name = ''x1'' then get_snparams self obs chunk ! 1
      else if name = ''x0'' then get_snparams self obs chunk ! 2
      else if name = ''t0'' then get_snparams self obs chunk ! 3
      else [])"

section \<open>Writing the rows of a chunk\<close>

text \<open>
  Modelled from the spec: the row filter of the chunk evaluator, which the catalog base
  class \<open>InstanceCatalog\<close> performs and these sources do not contain.  The spec
  (section 4.3, step 4, and section 8): after all getters have run, a row in which a
  column of the \<open>cannot_be_null\<close> list holds the null sentinel is not written; all other
  rows are written, in their order, as the cells of the output columns.  \<open>col\<close> gives
  the computed column of a name, and the rows are visited by their index.
\<close>

fun write_rows ::
  "('v \<Rightarrow> bool) \<Rightarrow> string list \<Rightarrow> string list \<Rightarrow> (string \<Rightarrow> 'v list) \<Rightarrow> nat list \<Rightarrow> 'v list list" where
  "write_rows is_null outputs not_null col [] = []"
| "write_rows is_null outputs not_null col (i # rest) =
     (if \<exists>c \<in> set not_null. is_null (col c ! i)
      then write_rows is_null outputs not_null col rest
      else map (\<lambda>c. col c ! i) outputs # write_rows is_null outputs not_null col rest)"

text \<open>
  Modelled from the spec: the same filter over a whole chunk of \<open>n\<close> rows, the rows
  \<open>0\<close>, ..., \<open>n - 1\<close> in this order.
\<close>

definition write_chunk ::
  "('v \<Rightarrow> bool) \<Rightarrow> string list \<Rightarrow> string list \<Rightarrow> (string \<Rightarrow> 'v list) \<Rightarrow> nat \<Rightarrow> 'v list list" where
  "write_chunk is_null outputs not_null col n = write_rows is_null outputs not_null col [0..<n]"

text \<open>
  What a \<open>FrozenSNCat\<close> writes for a chunk: the filter above, over the columns that the
  getters of the class compute, with the column lists of the class and \<open>NaN\<close> as the
  null sentinel.
\<close>

definition FrozenSNCat_write ::
  "'bp sn_catalog \<Rightarrow> obs_metadata \<Rightarrow> frozen_row list \<Rightarrow> npfloat list list" where
  "FrozenSNCat_write self obs chunk =
     write_chunk np_isnan SN_column_outputs SN_cannot_be_null
       (FrozenSNCat_column self obs chunk) (length chunk)"

text \<open>
  The peak date that \<open>get_snparams\<close> computes for one object, and the row that is
  written for it.
\<close>

definition frozen_t0 :: "'bp sn_catalog \<Rightarrow> obs_metadata \<Rightarrow> frozen_row \<Rightarrow> npfloat" where
  "frozen_t0 self obs r =
     (if suppressDimSN self
         \<and> np_gt (np_abs (np_sub (np_add (f_Tt0 r) (Fl surveyStartDate)) (Fl (mjd_TAI obs))))
               (Fl maxTimeSNVisible)
      then NaN
      else np_add (f_Tt0 r) (Fl surveyStartDate))"

definition frozen_output :: "'bp sn_catalog \<Rightarrow> obs_metadata \<Rightarrow> frozen_row \<Rightarrow> npfloat list" where
  "frozen_output self obs r =
     [f_snid r, f_raJ2000 r, f_decJ2000 r, f_Tredshift r, frozen_t0 self obs r,
      f_Tc r, f_Tx1 r, f_Tx0 r]"

text \<open>The cell of a named column of \<open>FrozenSNCat\<close> for one object.\<close>

definition frozen_cell :: "'bp sn_catalog \<Rightarrow> obs_metadata \<Rightarrow> string \<Rightarrow> frozen_row \<Rightarrow> npfloat" where
  "frozen_cell self obs name r =
     (if name = ''snid'' then f_snid r
      else if name = ''snra'' then f_raJ2000 r
      else if name = ''sndec'' then f_decJ2000 r
      else if name = ''z'' then f_Tredshift r
      else if name = ''c'' then f_Tc r
      else if name = ''x1'' then f_Tx1 r
      else if name = ''x0'' then f_Tx0 r
      else frozen_t0 self obs r)"

text \<open>
  Example data: an observation on day 59700, and a chunk of three supernovae that peak
  on the days 59680, 59980 and 59730.
\<close>

definition obs_59700 :: obs_metadata where
  "obs_59700 = \<lparr>bandpass = Band ''r'', m5 = None, mjd_TAI = 59700\<rparr>"

definition three_supernovae :: "frozen_row list" where
  "three_supernovae =
     [\<lparr>f_snid = Fl 1, f_raJ2000 = Fl 0, f_decJ2000 = Fl 0, f_Tredshift = Fl (1 / 2),
       f_Tc = Fl 0, f_Tx1 = Fl 0, f_Tx0 = Fl 1, f_Tt0 = Fl 100\<rparr>,
      \<lparr>f_snid = Fl 2, f_raJ2000 = Fl 0, f_decJ2000 = Fl 0, f_Tredshift = Fl (1 / 2),
       f_Tc = Fl 0, f_Tx1 = Fl 0, f_Tx0 = Fl 1, f_Tt0 = Fl 400\<rparr>,
      \<lparr>f_snid = Fl 3, f_raJ2000 = Fl 0, f_decJ2000 = Fl 0, f_Tredshift = Fl (1 / 2),
       f_Tc = Fl 0, f_Tx1 = Fl 0, f_Tx0 = Fl 1, f_Tt0 = Fl 150\<rparr>]"

section \<open>The default getters of the test catalogs (utils/CatalogTestUtils.py)\<close>

text \<open>
  What a getter calls as \<open>self.column_by_name\<close>: the column of a name, or an
  exception.
\<close>

type_synonym 'v lookup = "string \<Rightarrow> error + 'v list"

text \<open>
  The loop of the getters of \<open>testDefaults\<close>: \<open>out = numpy.zeros(n)\<close>, then
  \<open>out[i] = v\<close> for every \<open>i\<close> in \<open>range(n)\<close>.
\<close>

definition fill_zeros :: "nat \<Rightarrow> real \<Rightarrow> npfloat list" where
  "fill_zeros n v = fold (\<lambda>i out. out[i := Fl v]) [0..<n] (replicate n (Fl 0))"

text \<open>
  The four getters of \<open>testDefaults\<close>; \<open>lookup\<close> is \<open>self.column_by_name\<close>.  Each reads
  the column \<open>raJ2000\<close> for its length only.
\<close>

definition get_proper_motion_ra :: "npfloat lookup \<Rightarrow> error + npfloat list" where
  "get_proper_motion_ra lookup =
     (case lookup ''raJ2000'' of
        Inl e \<Rightarrow> Inl e
      | Inr ra \<Rightarrow> Inr (fill_zeros (length ra) 0))"

definition get_proper_motion_dec :: "npfloat lookup \<Rightarrow> error + npfloat list" where
  "get_proper_motion_dec lookup =
     (case lookup ''raJ2000'' of
        Inl e \<Rightarrow> Inl e
      | Inr ra \<Rightarrow> Inr (fill_zeros (length ra) 0))"

definition get_parallax :: "npfloat lookup \<Rightarrow> error + npfloat list" where
  "get_parallax lookup =
     (case lookup ''raJ2000'' of
        Inl e \<Rightarrow> Inl e
      | Inr ra \<Rightarrow> Inr (fill_zeros (length ra) (12 / 10)))"

definition get_radial_velocity :: "npfloat lookup \<Rightarrow> error + npfloat list" where
  "get_radial_velocity lookup =
     (case lookup ''raJ2000'' of
        Inl e \<Rightarrow> Inl e
      | Inr ra \<Rightarrow> Inr (fill_zeros (length ra) 0))"

text \<open>
  The getters that the mixin \<open>testDefaults\<close> declares, by the column each is named
  after (\<open>get_parallax\<close> is the getter of \<open>parallax\<close>).
\<close>

definition testDefaults_getters :: "string \<rightharpoonup> (npfloat lookup \<Rightarrow> error + npfloat list)" where
  "testDefaults_getters =
     [''proper_motion_ra'' \<mapsto> get_proper_motion_ra,
      ''proper_motion_dec'' \<mapsto> get_proper_motion_dec,
      ''parallax'' \<mapsto> get_parallax,
      ''radial_velocity'' \<mapsto> get_radial_velocity]"

section \<open>Resolving a column name\<close>

text \<open>
  Modelled from the spec: the resolution of a column name to its producer, which the
  catalog base class \<open>InstanceCatalog\<close> performs (\<open>column_by_name\<close>) and these sources
  do not contain.  The spec (sections 4.1 and 4.3): a column is native, read from the
  data source under its name, or derived, produced by the getter declared for it;
  where a name has both, resolution prefers the derived getter; the getter is invoked
  with a column lookup bound to the columns of the current chunk.  \<open>getters\<close> are the
  getters the catalog type declares, \<open>colmap\<close> the columns of the current chunk.
\<close>

datatype 'g producer = Native | Derived 'g

definition resolve_producer :: "(string \<rightharpoonup> 'g) \<Rightarrow> (string \<rightharpoonup> 'c) \<Rightarrow> string \<Rightarrow> 'g producer option" where
  "resolve_producer getters colmap name =
     (case getters name of
        Some g \<Rightarrow> Some (Derived g)
      | None \<Rightarrow>
          (case colmap name of
             Some _ \<Rightarrow> Some Native
           | None \<Rightarrow> None))"

text \<open>
  Modelled from the spec: the column lookup bound to the current chunk, which a getter
  is invoked with (section 4.3, step 2).  A name the chunk does not hold raises.
\<close>

definition chunk_column :: "(string \<rightharpoonup> 'v list) \<Rightarrow> 'v lookup" where
  "chunk_column colmap name =
     (case colmap name of
        None \<Rightarrow> Inl (KeyError name)
      | Some xs \<Rightarrow> Inr xs)"

text \<open>
  Modelled from the spec: the column of a name, by its producer: what the getter
  returns for a derived column, the chunk's own column for a native one.
\<close>

definition column_by_name ::
  "(string \<rightharpoonup> ('v lookup \<Rightarrow> error + 'v list)) \<Rightarrow> (string \<rightharpoonup> 'v list) \<Rightarrow> 'v lookup" where
  "column_by_name getters colmap name =
     (case resolve_producer getters colmap name of
        Some (Derived g) \<Rightarrow> g (chunk_column colmap)
      | Some Native \<Rightarrow> chunk_column colmap name
      | None \<Rightarrow> Inl (KeyError name))"

text \<open>
  Example data: the columns of a chunk of two stars, with parallaxes as
  \<open>makeStarDatabase\<close> draws them (0.00045 and 0.00046).
\<close>

definition two_stars :: "string \<rightharpoonup> npfloat list" where
  "two_stars =
     [''raJ2000'' \<mapsto> [Fl (1 / 2), Fl (3 / 4)],
      ''parallax'' \<mapsto> [Fl (9 / 20000), Fl (23 / 50000)]]"

section \<open>Verified properties\<close>

subsection \<open>Duplicate object ids\<close>

lemma module_loaded_eq:
  "module_loaded = \<lparr>registry = Some [Some ''msstars'' \<mapsto> StarObj_body], warnings = []\<rparr>"
  by (simp add: module_loaded_def create_class_def DBObjectMeta_init_def DBObjectMeta_new_def
        no_classes_def DBObject_body_def StarObj_body_def cls_objid_def)

text \<open>
  Claim C6, as the code has it.  Creating a class while the registry exists always
  stores the class under its \<open>objid\<close>, replacing whatever class held that key; when the
  key was taken, the only other effect is one more warning, \<open>duplicate object id ...
  specified\<close>.  With a column list, class creation raises nothing: a duplicate object
  id is not an error, and the later class overrides the earlier one.
\<close>

theorem duplicate_objid_warns_and_overrides:
  assumes "registry st = Some reg"
  shows "registry (fst (create_class st dct)) =
           Some (reg(cls_objid (DBObjectMeta_new dct) \<mapsto> DBObjectMeta_new dct))
       \<and> warnings (fst (create_class st dct)) =
           warnings st @ (if cls_objid (DBObjectMeta_new dct) \<in> dom reg
                          then [duplicate_warning (cls_objid (DBObjectMeta_new dct))] else [])
       \<and> (columns dct \<noteq> None \<longrightarrow> snd (create_class st dct) = None)"
  using assms
  by (auto simp: create_class_def DBObjectMeta_init_def DBObjectMeta_new_def Let_def
           split: option.splits)

text \<open>
  The theorem at the loaded module, where \<open>StarObj\<close> is defined a second time: the
  registry keeps one entry, one warning is issued and nothing is raised.
\<close>

theorem duplicate_objid_warns_and_overrides_witness:
  "registry module_loaded = Some [Some ''msstars'' \<mapsto> StarObj_body]
   \<and> registry (fst (create_class module_loaded StarObj_body)) =
       Some [Some ''msstars'' \<mapsto> StarObj_body]
   \<and> warnings (fst (create_class module_loaded StarObj_body)) =
       [''duplicate object id msstars specified'']
   \<and> snd (create_class module_loaded StarObj_body) = None"
proof -
  have reg: "registry module_loaded = Some [Some ''msstars'' \<mapsto> StarObj_body]"
    by (simp add: module_loaded_eq)
  have new: "DBObjectMeta_new StarObj_body = StarObj_body"
    by (simp add: DBObjectMeta_new_def StarObj_body_def)
  have oid: "cls_objid StarObj_body = Some ''msstars''"
    by (simp add: cls_objid_def StarObj_body_def)
  have cols: "columns StarObj_body \<noteq> None"
    by (simp add: StarObj_body_def)
  from duplicate_objid_warns_and_overrides [OF reg, of StarObj_body] reg new oid cols
  show ?thesis
    by (simp add: module_loaded_eq duplicate_warning_def py_str_def)
qed

text \<open>
  Claim C6 as stated fails: with \<open>StarObj\<close> registered under \<open>msstars\<close>, a class
  \<open>BrightStars\<close> that claims the same object id is created without any exception, and
  the registry then maps \<open>msstars\<close> to \<open>BrightStars\<close>.
\<close>

theorem duplicate_objid_counterexample:
  "registry module_loaded = Some [Some ''msstars'' \<mapsto> StarObj_body]
   \<and> snd (create_class module_loaded BrightStars_body) = None
   \<and> registry (fst (create_class module_loaded BrightStars_body)) =
       Some [Some ''msstars'' \<mapsto> BrightStars_body]
   \<and> warnings (fst (create_class module_loaded BrightStars_body)) =
       [''duplicate object id msstars specified'']"
  by (simp add: module_loaded_eq create_class_def DBObjectMeta_init_def DBObjectMeta_new_def
        cls_objid_def duplicate_warning_def py_str_def BrightStars_body_def)

subsection \<open>Chunked queries\<close>

lemma build_requirements_key:
  "k \<in> fst ` set cols \<Longrightarrow> build_requirements cols cmap k \<noteq> None"
  unfolding build_requirements_def
  by (induction cols) (auto simp: map_add_def split: option.splits)

lemma those_all_Some: "(\<forall>x\<in>set xs. x \<noteq> None) \<Longrightarrow> \<exists>ys. those xs = Some ys"
  by (induction xs) auto

text \<open>Selecting every column never raises: each column name is a key of \<open>requirements\<close>.\<close>

lemma get_column_query_all_columns: "\<exists>q. get_column_query self None = Inr q"
proof -
  have "\<forall>x\<in>set (map (requirements self) (map fst (db_columns self))). x \<noteq> None"
    using build_requirements_key [of _ "db_columns self" "db_column_map self"]
    by (auto simp: requirements_def)
  then obtain vals where "those (map (requirements self) (map fst (db_columns self))) = Some vals"
    using those_all_Some by blast
  then show ?thesis
    by (simp add: get_column_query_def Let_def)
qed

text \<open>The two free names of \<open>ChunkIterator.__init__\<close> are not bound by the module.\<close>

lemma free_names_unbound: "''dbobj'' \<notin> set module_names \<and> ''query'' \<notin> set module_names"
  by (simp add: module_names_def)

text \<open>
  Claim C7 at its failing input.  Whatever the database object, the chunk size and the
  constraint, \<open>query_columns\<close> with a chunk size raises \<open>NameError\<close> where it constructs
  the iterator: no chunk is ever fetched, and the iteration does not end with
  \<open>StopIteration\<close>.
\<close>

theorem query_columns_chunked_raises_NameError:
  "query_columns dbConnection_env filter_md self None (Some chunksize) None constraint
     = Inl (NameError ''dbobj'')"
proof -
  obtain q where "get_column_query self None = Inr q"
    using get_column_query_all_columns by blast
  then show ?thesis
    by (simp add: query_columns_def ChunkIterator_init_def dbConnection_env_def Let_def
             split: option.splits)
qed

text \<open>
  The rest of what C7 says does hold of the code.  Without a chunk size the whole
  result is post-processed and returned by the one call.
\<close>

lemma query_columns_unchunked:
  assumes "get_column_query self colnames = Inr q"
  shows "query_columns env filter_md self colnames None None None =
           (case postprocess_results self (db_execute self q) of
              Inl e \<Rightarrow> Inl e
            | Inr rows \<Rightarrow> Inr (Rows rows))"
  using assms by (simp add: query_columns_def)

text \<open>
  And an iterator, were one constructed, would fetch at most \<open>chunksize\<close> rows per call
  and raise \<open>StopIteration\<close> exactly when a fetch returns no row.
\<close>

lemma ChunkIterator_next_stops_iff:
  "snd (ChunkIterator_next it) = Inl StopIteration \<longleftrightarrow>
     take (it_chunksize it) (it_exec_query it) = []
     \<or> postprocess_results (it_dbobj it) (take (it_chunksize it) (it_exec_query it))
         = Inl StopIteration"
  by (auto simp: ChunkIterator_next_def Let_def)

lemma postprocess_row_not_StopIteration: "postprocess_row self r \<noteq> Inl StopIteration"
  by (simp add: postprocess_row_def split: option.splits)

lemma postprocess_results_not_StopIteration:
  "postprocess_results self rs \<noteq> Inl StopIteration"
  by (induction rs) (auto simp: postprocess_row_not_StopIteration split: sum.splits)

lemma ChunkIterator_next_StopIteration:
  "snd (ChunkIterator_next it) = Inl StopIteration \<longleftrightarrow>
     take (it_chunksize it) (it_exec_query it) = []"
  by (simp add: ChunkIterator_next_stops_iff postprocess_results_not_StopIteration)

lemma ChunkIterator_next_chunk:
  assumes "snd (ChunkIterator_next it) = Inr chunk"
  shows "length chunk \<le> it_chunksize it
       \<and> it_exec_query (fst (ChunkIterator_next it)) = drop (it_chunksize it) (it_exec_query it)"
proof -
  have len: "postprocess_results self rs = Inr rs' \<Longrightarrow> length rs' = length rs" for self rs rs'
    by (induction rs arbitrary: rs') (auto split: sum.splits)
  from assms show ?thesis
    by (auto simp: ChunkIterator_next_def Let_def dest!: len split: if_splits)
qed

subsection \<open>The bandpass table is loaded once per catalog instance\<close>

lemma magnitudes_with_frame:
  "cartoonBandpassDict (fst (magnitudes_with env self bp chunk)) = cartoonBandpassDict self
   \<and> bandpass_loads (fst (magnitudes_with env self bp chunk)) = bandpass_loads self
   \<and> snd (magnitudes_with env self bp chunk) = magnitudeGetter env bp cartoon_colnames chunk"
  by (simp add: magnitudes_with_def Let_def)

text \<open>Once the table is on the instance, no call loads it again.\<close>

lemma get_magnitudes_cached:
  assumes "cartoonBandpassDict self = Some bp"
  shows "cartoonBandpassDict (fst (get_magnitudes env self chunk)) = Some bp
       \<and> bandpass_loads (fst (get_magnitudes env self chunk)) = bandpass_loads self
       \<and> snd (get_magnitudes env self chunk) = magnitudeGetter env bp cartoon_colnames chunk"
  using assms by (simp add: get_magnitudes_def magnitudes_with_frame)

lemma get_magnitudes_first:
  assumes "cartoonBandpassDict self = None"
  shows "cartoonBandpassDict (fst (get_magnitudes env self chunk))
           = Some (loadTotalBandpassesFromFiles env)
       \<and> bandpass_loads (fst (get_magnitudes env self chunk)) = Suc (bandpass_loads self)
       \<and> snd (get_magnitudes env self chunk)
           = magnitudeGetter env (loadTotalBandpassesFromFiles env) cartoon_colnames chunk"
  using assms by (simp add: get_magnitudes_def magnitudes_with_frame)

lemma get_magnitudes_of_chunks_cached:
  assumes "cartoonBandpassDict self = Some bp"
  shows "cartoonBandpassDict (fst (get_magnitudes_of_chunks env self chunks)) = Some bp
       \<and> bandpass_loads (fst (get_magnitudes_of_chunks env self chunks)) = bandpass_loads self
       \<and> snd (get_magnitudes_of_chunks env self chunks)
           = map (magnitudeGetter env bp cartoon_colnames) chunks"
  using assms
proof (induction chunks arbitrary: self)
  case Nil
  then show ?case by simp
next
  case (Cons c cs)
  from get_magnitudes_cached [OF Cons.prems, of env c]
  have step: "cartoonBandpassDict (fst (get_magnitudes env self c)) = Some bp"
    and loads: "bandpass_loads (fst (get_magnitudes env self c)) = bandpass_loads self"
    and out: "snd (get_magnitudes env self c) = magnitudeGetter env bp cartoon_colnames c"
    by simp_all
  from Cons.IH [OF step] loads out show ?case
    by (simp add: Let_def)
qed

text \<open>
  The \<open>lazyproperty\<close> \<open>lsstBandpassDict\<close> of the supernova catalogs behaves in the same
  way.  A call of \<open>get_snbrightness\<close> changes the instance only by reading the property,
  which it does unless the bandpass is a list.
\<close>

lemma get_snbrightness_instance:
  "bandpass obs = Band b \<Longrightarrow>
     fst (get_snbrightness model self obs rows) = fst (lsstBandpassDict model self)"
  by (simp add: get_snbrightness_def Let_def split: option.splits)

lemma lsstBandpassDict_cached:
  assumes "dict_lsstBandpassDict self = Some d"
  shows "lsstBandpassDict model self = (self, d)"
  using assms by (simp add: lsstBandpassDict_def)

lemma lsstBandpassDict_first:
  assumes "dict_lsstBandpassDict self = None"
  shows "dict_lsstBandpassDict (fst (lsstBandpassDict model self)) = Some (loadLsstBandpasses model)
       \<and> lsst_loads (fst (lsstBandpassDict model self)) = Suc (lsst_loads self)
       \<and> snd (lsstBandpassDict model self) = loadLsstBandpasses model"
  using assms by (simp add: lsstBandpassDict_def)

lemma get_snbrightness_of_chunks_cached:
  assumes "dict_lsstBandpassDict self = Some d" and "bandpass obs = Band b"
  shows "fst (get_snbrightness_of_chunks model self obs chunks) = self"
  using assms(1)
proof (induction chunks)
  case Nil
  then show ?case by simp
next
  case (Cons c cs)
  have "fst (get_snbrightness model self obs c) = self"
    using Cons.prems assms(2) by (simp add: get_snbrightness_instance lsstBandpassDict_cached)
  with Cons show ?case
    by (simp add: Let_def split: sum.splits)
qed

lemma get_snbrightness_of_chunks_first:
  assumes "dict_lsstBandpassDict self = None" and "bandpass obs = Band b" and "chunks \<noteq> []"
  shows "fst (get_snbrightness_of_chunks model self obs chunks) = fst (lsstBandpassDict model self)"
proof -
  from assms(3) obtain c cs where chunks: "chunks = c # cs"
    by (cases chunks) auto
  let ?self1 = "fst (lsstBandpassDict model self)"
  have first: "fst (get_snbrightness model self obs c) = ?self1"
    using assms(2) by (rule get_snbrightness_instance)
  have "dict_lsstBandpassDict ?self1 = Some (loadLsstBandpasses model)"
    using lsstBandpassDict_first [OF assms(1)] by simp
  then have "fst (get_snbrightness_of_chunks model ?self1 obs cs) = ?self1"
    using assms(2) by (rule get_snbrightness_of_chunks_cached)
  with first chunks show ?thesis
    by (simp add: Let_def split: sum.splits)
qed

text \<open>
  Claim C3.  On an instance without the table, a run over any one or more chunks calls
  \<open>loadTotalBandpassesFromFiles\<close> exactly once; the call is made while the first chunk
  is computed, the table stays on the instance, and the magnitudes of every chunk,
  the later ones included, are computed from that one table.  Likewise a run of
  \<open>get_snbrightness\<close> over one or more chunks, in one bandpass, evaluates the
  \<open>lazyproperty\<close> \<open>lsstBandpassDict\<close> exactly once, while the first chunk is computed,
  whether or not a later chunk raises.
\<close>

theorem bandpass_table_loaded_once:
  assumes "cartoonBandpassDict self = None" and "chunks \<noteq> []"
    and "dict_lsstBandpassDict sn = None" and "bandpass obs = Band b" and "sn_chunks \<noteq> []"
  shows "bandpass_loads (fst (get_magnitudes_of_chunks env self chunks)) = Suc (bandpass_loads self)
       \<and> bandpass_loads (fst (get_magnitudes env self (hd chunks))) = Suc (bandpass_loads self)
       \<and> cartoonBandpassDict (fst (get_magnitudes_of_chunks env self chunks))
           = Some (loadTotalBandpassesFromFiles env)
       \<and> snd (get_magnitudes_of_chunks env self chunks)
           = map (magnitudeGetter env (loadTotalBandpassesFromFiles env) cartoon_colnames) chunks
       \<and> lsst_loads (fst (get_snbrightness_of_chunks model sn obs sn_chunks)) = Suc (lsst_loads sn)
       \<and> lsst_loads (fst (get_snbrightness model sn obs (hd sn_chunks))) = Suc (lsst_loads sn)
       \<and> dict_lsstBandpassDict (fst (get_snbrightness_of_chunks model sn obs sn_chunks))
           = Some (loadLsstBandpasses model)"
proof -
  from assms(2) obtain c cs where chunks: "chunks = c # cs"
    by (cases chunks) auto
  from get_magnitudes_first [OF assms(1), of env c]
  have first: "cartoonBandpassDict (fst (get_magnitudes env self c))
                 = Some (loadTotalBandpassesFromFiles env)"
    and loads: "bandpass_loads (fst (get_magnitudes env self c)) = Suc (bandpass_loads self)"
    and out: "snd (get_magnitudes env self c)
                = magnitudeGetter env (loadTotalBandpassesFromFiles env) cartoon_colnames c"
    by simp_all
  from get_magnitudes_of_chunks_cached [OF first, of env cs] loads out chunks
  have cartoon: "bandpass_loads (fst (get_magnitudes_of_chunks env self chunks)) = Suc (bandpass_loads self)
       \<and> bandpass_loads (fst (get_magnitudes env self (hd chunks))) = Suc (bandpass_loads self)
       \<and> cartoonBandpassDict (fst (get_magnitudes_of_chunks env self chunks))
           = Some (loadTotalBandpassesFromFiles env)
       \<and> snd (get_magnitudes_of_chunks env self chunks)
           = map (magnitudeGetter env (loadTotalBandpassesFromFiles env) cartoon_colnames) chunks"
    by (simp add: Let_def)
  have run: "fst (get_snbrightness_of_chunks model sn obs sn_chunks) = fst (lsstBandpassDict model sn)"
    using assms(3,4,5) by (rule get_snbrightness_of_chunks_first)
  have one: "fst (get_snbrightness model sn obs (hd sn_chunks)) = fst (lsstBandpassDict model sn)"
    using assms(4) by (rule get_snbrightness_instance)
  from run one lsstBandpassDict_first [OF assms(3), of model]
  have "lsst_loads (fst (get_snbrightness_of_chunks model sn obs sn_chunks)) = Suc (lsst_loads sn)
       \<and> lsst_loads (fst (get_snbrightness model sn obs (hd sn_chunks))) = Suc (lsst_loads sn)
       \<and> dict_lsstBandpassDict (fst (get_snbrightness_of_chunks model sn obs sn_chunks))
           = Some (loadLsstBandpasses model)"
    by simp
  with cartoon show ?thesis
    by simp
qed

text \<open>
  The theorem for a new cartoon catalog written in three chunks, with a getter that
  returns one magnitude per column and object, and for a new supernova catalog that
  computes two chunks in the \<open>r\<close> band.
\<close>

theorem bandpass_table_loaded_once_witness:
  "bandpass_loads (fst (get_magnitudes_of_chunks cartoon_example
       new_cartoon_catalog [[1, 2], [3], [4, 5, 6 :: nat]])) = 1
   \<and> cartoonBandpassDict (fst (get_magnitudes_of_chunks cartoon_example
       new_cartoon_catalog [[1, 2], [3], [4, 5, 6 :: nat]])) = Some ''ugriz''
   \<and> lsst_loads (fst (get_snbrightness_of_chunks sn_example new_sn_catalog obs_r_band
       [[sn_example_row], [sn_example_row, sn_example_row]])) = 1"
proof -
  have fresh: "cartoonBandpassDict
      (new_cartoon_catalog :: (string, nat, nat) cartoon_catalog) = None"
    by (simp add: new_cartoon_catalog_def)
  have chunks: "[[1, 2], [3], [4, 5, 6 :: nat]] \<noteq> []"
    by simp
  have sn_fresh: "dict_lsstBandpassDict (new_sn_catalog :: nat sn_catalog) = None"
    by (simp add: new_sn_catalog_def)
  have band: "bandpass obs_r_band = Band ''r''"
    by (simp add: obs_r_band_def)
  have sn_chunks: "[[sn_example_row], [sn_example_row, sn_example_row]] \<noteq> []"
    by simp
  from bandpass_table_loaded_once [OF fresh chunks sn_fresh band sn_chunks,
      of cartoon_example sn_example]
  show ?thesis
    by (simp add: new_cartoon_catalog_def new_sn_catalog_def cartoon_example_def)
qed

subsection \<open>The depth lookup of the supernova getter\<close>

text \<open>
  With a depth dictionary that lacks the bandpass, the first object of a chunk makes
  \<open>get_snbrightness\<close> raise the \<open>KeyError\<close> of the dictionary, whose argument is the
  bandpass name and nothing else.
\<close>

lemma get_snbrightness_missing_m5:
  assumes "bandpass obs = Band bandname"
    and "snd (lsstBandpassDict model self) bandname = Some bp"
    and "m5 obs = Some d" and "d bandname = None"
  shows "snd (get_snbrightness model self obs (row # rows)) = Inl (KeyError bandname)"
  using assms
  by (simp add: get_snbrightness_def Let_def snbrightness_row_def m5_of_def)

text \<open>With no depths at all it is a \<open>TypeError\<close>.\<close>

lemma get_snbrightness_no_m5:
  assumes "bandpass obs = Band bandname"
    and "snd (lsstBandpassDict model self) bandname = Some bp"
    and "m5 obs = None"
  shows "\<exists>msg. snd (get_snbrightness model self obs (row # rows)) = Inl (TypeError msg)"
  using assms
  by (simp add: get_snbrightness_def Let_def snbrightness_row_def m5_of_def)

text \<open>On a chunk without objects the depth is never read, and nothing is raised.\<close>

lemma get_snbrightness_empty_chunk:
  assumes "bandpass obs = Band bandname"
    and "snd (lsstBandpassDict model self) bandname = Some bp"
  shows "snd (get_snbrightness model self obs []) = Inr [[], [], [], [], []]"
  using assms
  by (simp add: get_snbrightness_def Let_def upt_rec)

subsection \<open>Rows with a null in a column that cannot be null\<close>

lemma write_rows_filter:
  "write_rows is_null outs nulls col idx =
     map (\<lambda>i. map (\<lambda>c. col c ! i) outs) (filter (\<lambda>i. \<forall>c \<in> set nulls. \<not> is_null (col c ! i)) idx)"
  by (induction idx) auto

lemma filter_indices:
  "map ((!) xs) (filter (\<lambda>i. P (xs ! i)) [0..<length xs]) = filter P xs"
proof -
  have "filter P xs = filter P (map ((!) xs) [0..<length xs])"
    by (simp add: map_nth)
  also have "\<dots> = map ((!) xs) (filter (P \<circ> (!) xs) [0..<length xs])"
    by (simp add: filter_map)
  finally show ?thesis
    by (simp add: comp_def)
qed

text \<open>
  When every column is computed cell by cell from the rows of the chunk, the rows
  written are the rows without a null, each mapped to its output cells.
\<close>

lemma write_chunk_rowwise:
  assumes "\<forall>c \<in> set outs \<union> set nulls. col c = map (cell c) chunk"
  shows "write_chunk is_null outs nulls col (length chunk) =
           map (\<lambda>r. map (\<lambda>c. cell c r) outs)
               (filter (\<lambda>r. \<forall>c \<in> set nulls. \<not> is_null (cell c r)) chunk)"
proof -
  let ?ok = "\<lambda>r. \<forall>c \<in> set nulls. \<not> is_null (cell c r)"
  let ?row = "\<lambda>r. map (\<lambda>c. cell c r) outs"
  have idx: "filter (\<lambda>i. \<forall>c \<in> set nulls. \<not> is_null (col c ! i)) [0..<length chunk]
           = filter (\<lambda>i. ?ok (chunk ! i)) [0..<length chunk]"
    using assms by (intro filter_cong) auto
  have rows: "map (\<lambda>i. map (\<lambda>c. col c ! i) outs) (filter (\<lambda>i. ?ok (chunk ! i)) [0..<length chunk])
            = map (\<lambda>i. ?row (chunk ! i)) (filter (\<lambda>i. ?ok (chunk ! i)) [0..<length chunk])"
    using assms by (intro map_cong) auto
  have "map (\<lambda>i. ?row (chunk ! i)) (filter (\<lambda>i. ?ok (chunk ! i)) [0..<length chunk])
      = map ?row (map ((!) chunk) (filter (\<lambda>i. ?ok (chunk ! i)) [0..<length chunk]))"
    by (simp add: comp_def)
  also have "\<dots> = map ?row (filter ?ok chunk)"
    using filter_indices [where xs = chunk and P = "?ok"] by simp
  finally show ?thesis
    using idx rows by (simp add: write_chunk_def write_rows_filter)
qed

lemma np_where_map:
  "np_where (map p rs) x (map f rs) = map (\<lambda>r. if p r then x else f r) rs"
  by (induction rs) (auto simp: np_where_def)

lemma FrozenSNCat_column_cells:
  assumes "name \<in> set SN_column_outputs \<union> set SN_cannot_be_null"
  shows "FrozenSNCat_column self obs chunk name = map (frozen_cell self obs name) chunk"
  using assms
  by (auto simp: FrozenSNCat_column_def frozen_cell_def SN_column_outputs_def SN_cannot_be_null_def
        get_snparams_def get_angularCoordinates_def Let_def np_where_map badvalues_def
        frozen_t0_def comp_def)

lemma FrozenSNCat_write_rowwise:
  "FrozenSNCat_write self obs chunk =
     map (frozen_output self obs)
       (filter (\<lambda>r. \<not> np_isnan (f_Tx0 r) \<and> \<not> np_isnan (f_Tredshift r)
                   \<and> \<not> np_isnan (frozen_t0 self obs r)) chunk)"
proof -
  have "FrozenSNCat_write self obs chunk =
          map (\<lambda>r. map (\<lambda>c. frozen_cell self obs c r) SN_column_outputs)
              (filter (\<lambda>r. \<forall>c \<in> set SN_cannot_be_null. \<not> np_isnan (frozen_cell self obs c r)) chunk)"
    unfolding FrozenSNCat_write_def
    by (rule write_chunk_rowwise) (simp add: FrozenSNCat_column_cells)
  then show ?thesis
    by (simp add: SN_column_outputs_def SN_cannot_be_null_def frozen_cell_def frozen_output_def)
qed

text \<open>
  With \<open>suppressDimSN\<close>, the peak date of an object is \<open>NaN\<close> exactly when \<open>Tt0\<close> is, or
  when the peak lies more than \<open>maxTimeSNVisible\<close> days from the observation.
\<close>

lemma frozen_t0_isnan:
  "np_isnan (frozen_t0 self obs r) \<longleftrightarrow>
     (case f_Tt0 r of
        NaN \<Rightarrow> True
      | Fl t \<Rightarrow> suppressDimSN self \<and> \<bar>t + surveyStartDate - mjd_TAI obs\<bar> > maxTimeSNVisible)"
  by (cases "f_Tt0 r") (auto simp: frozen_t0_def)

text \<open>
  Claim C5.  The rows written for a chunk are the rows in which no \<open>cannot_be_null\<close>
  column is null, in the order of the chunk, each as its output cells; no other row is
  written and none of these is left out.  For \<open>FrozenSNCat\<close>, whose \<open>cannot_be_null\<close>
  columns are \<open>x0\<close>, \<open>z\<close> and \<open>t0\<close>, these are the objects of the chunk whose \<open>Tx0\<close> and
  \<open>Tredshift\<close> are numbers and whose peak date, as \<open>get_snparams\<close> computes it, is not
  \<open>NaN\<close>.
\<close>

theorem null_rows_are_not_written:
  "write_chunk is_null outs nulls col n =
     map (\<lambda>i. map (\<lambda>c. col c ! i) outs)
         (filter (\<lambda>i. \<forall>c \<in> set nulls. \<not> is_null (col c ! i)) [0..<n])
   \<and> FrozenSNCat_write self obs chunk =
     map (frozen_output self obs)
       (filter (\<lambda>r. \<not> np_isnan (f_Tx0 r) \<and> \<not> np_isnan (f_Tredshift r)
                   \<and> \<not> np_isnan (frozen_t0 self obs r)) chunk)"
  by (simp add: write_chunk_def write_rows_filter FrozenSNCat_write_rowwise)

text \<open>
  The theorem for a chunk of three supernovae observed on day 59700: the second peaks
  on day 59980, more than 100 days away, and is the one row that is not written.
\<close>

theorem null_rows_are_not_written_witness:
  "FrozenSNCat_write (new_sn_catalog :: nat sn_catalog) obs_59700 three_supernovae
   = [[Fl 1, Fl 0, Fl 0, Fl (1 / 2), Fl 59680, Fl 0, Fl 0, Fl 1],
      [Fl 3, Fl 0, Fl 0, Fl (1 / 2), Fl 59730, Fl 0, Fl 0, Fl 1]]"
proof -
  note null_rows_are_not_written
    [where self = "new_sn_catalog :: nat sn_catalog" and obs = obs_59700
       and chunk = three_supernovae, THEN conjunct2]
  then show ?thesis
    by (simp add: three_supernovae_def obs_59700_def frozen_output_def frozen_t0_def
          suppressDimSN_def new_sn_catalog_def surveyStartDate_def maxTimeSNVisible_def)
qed

subsection \<open>A getter declared for a column of the data source\<close>

lemma fold_update_prefix:
  "k \<le> length xs \<Longrightarrow>
     fold (\<lambda>i out. out[i := a]) [0..<k] xs = replicate k a @ drop k xs"
proof (induction k)
  case 0
  then show ?case by simp
next
  case (Suc k)
  then have k: "k < length xs" by simp
  then have "(replicate k a @ drop k xs)[k := a] = replicate k a @ (drop k xs)[0 := a]"
    by (simp add: list_update_append)
  also have "\<dots> = replicate k a @ a # drop (Suc k) xs"
    using k by (simp add: Cons_nth_drop_Suc [symmetric])
  also have "\<dots> = replicate (Suc k) a @ drop (Suc k) xs"
    by (simp add: replicate_append_same)
  finally show ?case
    using Suc by simp
qed

text \<open>The loop fills every cell.\<close>

lemma fill_zeros_replicate: "fill_zeros n v = replicate n (Fl v)"
  using fold_update_prefix [of n "replicate n (Fl 0)" "Fl v"]
  by (simp add: fill_zeros_def)

lemma get_parallax_value:
  "lookup ''raJ2000'' = Inr ra \<Longrightarrow> get_parallax lookup = Inr (replicate (length ra) (Fl (12 / 10)))"
  by (simp add: get_parallax_def fill_zeros_replicate)

text \<open>
  Claim C8.  A name for which the catalog type declares a getter resolves to that
  getter whether or not the chunk has a column of that name, and its column is what
  the getter returns.  For a catalog with \<open>testDefaults\<close>, the column \<open>parallax\<close> is
  1.2 for every object of the chunk, whatever the data source holds as \<open>parallax\<close>.
\<close>

theorem derived_getter_overrides_native_column:
  "(getters name = Some g \<longrightarrow>
      resolve_producer getters colmap name = Some (Derived g)
      \<and> column_by_name getters colmap name = g (chunk_column colmap))
   \<and> (stars ''raJ2000'' = Some ra \<longrightarrow>
      column_by_name testDefaults_getters stars ''parallax''
        = Inr (replicate (length ra) (Fl (12 / 10))))"
proof -
  have "column_by_name testDefaults_getters stars ''parallax'' = get_parallax (chunk_column stars)"
    by (simp add: column_by_name_def resolve_producer_def testDefaults_getters_def)
  moreover have "stars ''raJ2000'' = Some ra \<Longrightarrow> chunk_column stars ''raJ2000'' = Inr ra"
    by (simp add: chunk_column_def)
  ultimately show ?thesis
    by (auto simp: column_by_name_def resolve_producer_def get_parallax_value)
qed

text \<open>
  The theorem for the chunk of two stars: the data source holds the parallaxes 0.00045
  and 0.00046, the name resolves to \<open>get_parallax\<close>, and the column is 1.2 twice.
\<close>

theorem derived_getter_overrides_native_column_witness:
  "two_stars ''parallax'' = Some [Fl (9 / 20000), Fl (23 / 50000)]
   \<and> resolve_producer testDefaults_getters two_stars ''parallax'' = Some (Derived get_parallax)
   \<and> column_by_name testDefaults_getters two_stars ''parallax'' = Inr [Fl (12 / 10), Fl (12 / 10)]"
proof -
  have g: "testDefaults_getters ''parallax'' = Some get_parallax"
    by (simp add: testDefaults_getters_def)
  have ra: "two_stars ''raJ2000'' = Some [Fl (1 / 2), Fl (3 / 4)]"
    by (simp add: two_stars_def)
  have native: "two_stars ''parallax'' = Some [Fl (9 / 20000), Fl (23 / 50000)]"
    by (simp add: two_stars_def)
  from derived_getter_overrides_native_column
    [of testDefaults_getters "''parallax''" get_parallax two_stars two_stars
        "[Fl (1 / 2), Fl (3 / 4)]"]
  have "resolve_producer testDefaults_getters two_stars ''parallax'' = Some (Derived get_parallax)"
    and "column_by_name testDefaults_getters two_stars ''parallax''
           = Inr (replicate (length [Fl (1 / 2), Fl (3 / 4)]) (Fl (12 / 10)))"
    using g ra by blast+
  with native show ?thesis
    by (simp add: numeral_2_eq_2)
qed

end
